theory Spec2Isabelle
  imports Main "HOL-Library.AList"
begin

section \<open>Rule-to-predicate compiler of django-drip (drip/models.py)\<close>

text \<open>
  The development embeds the methods of \<^verbatim>\<open>QuerySetRule\<close>: \<^verbatim>\<open>annotated_field_name\<close>,
  \<^verbatim>\<open>apply_any_annotation\<close>, \<^verbatim>\<open>parse_duration\<close>, \<^verbatim>\<open>filter_kwargs\<close>, \<^verbatim>\<open>apply\<close> (here
  \<open>apply_rule\<close>) and \<^verbatim>\<open>clean\<close>. What the methods call outside the repository is a parameter of the model:
  Django's \<^verbatim>\<open>django.utils.dateparse.parse_duration\<close> (\<open>pd\<close>), the clock (\<open>now\<close>) and the
  query set operations \<^verbatim>\<open>annotate\<close>, \<^verbatim>\<open>filter\<close> and \<^verbatim>\<open>exclude\<close> (a record \<open>S\<close>).
  An exception is a value \<open>Inl e\<close> of a sum type.
\<close>

subsection \<open>Python string methods used by the rule code\<close>

text \<open>\<^verbatim>\<open>s.startswith(p)\<close> and \<^verbatim>\<open>s.endswith(p)\<close>.\<close>

definition startswith :: "string \<Rightarrow> string \<Rightarrow> bool" where
  "startswith s p = (take (length p) s = p)"

definition endswith :: "string \<Rightarrow> string \<Rightarrow> bool" where
  "endswith s p = (length p \<le> length s \<and> drop (length s - length p) s = p)"

text \<open>\<^verbatim>\<open>sub in s\<close>: \<open>sub\<close> occurs in \<open>s\<close> as a contiguous substring.\<close>

fun contains :: "string \<Rightarrow> string \<Rightarrow> bool" where
  "contains [] sub = (sub = [])"
| "contains (c # cs) sub = (startswith (c # cs) sub \<or> contains cs sub)"

text \<open>\<^verbatim>\<open>s.lstrip(chars)\<close>: drops every leading character that belongs to \<open>chars\<close>.\<close>

definition lstrip :: "string \<Rightarrow> string \<Rightarrow> string" where
  "lstrip s chars = dropWhile (\<lambda>c. c \<in> set chars) s"

text \<open>
  \<^verbatim>\<open>s.replace(old, new)\<close>: every non-overlapping occurrence of \<open>old\<close>, scanning from the
  left, is replaced. For an empty \<open>old\<close> Python inserts \<open>new\<close> before every character and
  at the end.
\<close>

function replace :: "string \<Rightarrow> string \<Rightarrow> string \<Rightarrow> string" where
  "replace [] old new = (if old = [] then new else [])"
| "replace (c # cs) old new =
     (if old = [] then new @ c # replace cs old new
      else if startswith (c # cs) old then new @ replace (drop (length old) (c # cs)) old new
      else c # replace cs old new)"
  by pat_completeness auto
termination
  by (relation "measure (\<lambda>(s, old, new). length s)") auto

text \<open>
  \<^verbatim>\<open>s.rfind(sep)\<close>: the highest index at which \<open>sep\<close> starts in \<open>s\<close>. The candidates are
  tried from \<open>len(s) - len(sep)\<close> downwards.
\<close>

fun rfind_from :: "string \<Rightarrow> string \<Rightarrow> nat \<Rightarrow> nat option" where
  "rfind_from s sep 0 = (if startswith s sep then Some 0 else None)"
| "rfind_from s sep (Suc i) =
     (if startswith (drop (Suc i) s) sep then Some (Suc i) else rfind_from s sep i)"

definition rfind :: "string \<Rightarrow> string \<Rightarrow> nat option" where
  "rfind s sep =
     (if length sep \<le> length s then rfind_from s sep (length s - length sep) else None)"

text \<open>
  \<^verbatim>\<open>s.rpartition(sep)\<close>: split at the last occurrence of \<open>sep\<close>; when there is none the
  result is \<^verbatim>\<open>('', '', s)\<close>. Python raises ValueError for an empty separator; both call
  sites pass the constant \<^verbatim>\<open>'__'\<close>.
\<close>

definition rpartition :: "string \<Rightarrow> string \<Rightarrow> string \<times> string \<times> string" where
  "rpartition s sep =
     (case rfind s sep of
        None \<Rightarrow> ([], [], s)
      | Some i \<Rightarrow> (take i s, sep, drop (i + length sep) s))"

text \<open>\<^verbatim>\<open>sep.join(xs)\<close>.\<close>

fun join :: "string \<Rightarrow> string list \<Rightarrow> string" where
  "join sep [] = []"
| "join sep [x] = x"
| "join sep (x # y # ys) = x @ sep @ join sep (y # ys)"

subsection \<open>Exceptions, durations, instants and dates\<close>

text \<open>
  A raised exception, by what \<^verbatim>\<open>clean\<close> reads of it: \<^verbatim>\<open>type(e).__name__\<close> and
  \<^verbatim>\<open>str(e)\<close>. Only subclasses of \<^verbatim>\<open>Exception\<close> are modelled.
\<close>

datatype exn = Exn (exn_type: string) (exn_str: string)

text \<open>
  \<^verbatim>\<open>datetime.timedelta\<close> is its total number of microseconds; \<^verbatim>\<open>timedelta.days\<close> is the
  floor of the total divided by one day. A \<^verbatim>\<open>datetime.date\<close> is its proleptic Gregorian
  ordinal (\<^verbatim>\<open>toordinal()\<close>, 0001-01-01 is day 1), a \<^verbatim>\<open>datetime.datetime\<close> the number
  of microseconds \<open>ordinal * us_per_day + time of day\<close>.
\<close>

datatype timedelta = Timedelta (total_us: int)
datatype date = Date (ordinal: int)
datatype datetime = Datetime (dt_us: int)

definition us_per_day :: int where
  "us_per_day = 86400000000"

definition MAXORDINAL :: int where
  "MAXORDINAL = 3652059"

definition td_days :: "timedelta \<Rightarrow> int" where
  "td_days td = total_us td div us_per_day"

definition timedelta_days :: "int \<Rightarrow> timedelta" where
  "timedelta_days n = Timedelta (n * us_per_day)"

text \<open>\<^verbatim>\<open>datetime.date()\<close>: the calendar date of an instant, the time of day dropped.\<close>

definition date_of :: "datetime \<Rightarrow> date" where
  "date_of dt = Date (dt_us dt div us_per_day)"

definition valid_datetime :: "datetime \<Rightarrow> bool" where
  "valid_datetime dt = (0 < dt_us dt div us_per_day \<and> dt_us dt div us_per_day \<le> MAXORDINAL)"

text \<open>
  \<^verbatim>\<open>datetime + x\<close> and \<^verbatim>\<open>date + x\<close> where \<open>x\<close> is what \<^verbatim>\<open>parse_duration\<close> returned:
  a \<^verbatim>\<open>timedelta\<close> or \<^verbatim>\<open>None\<close>. Adding \<^verbatim>\<open>None\<close> raises TypeError; a result outside
  years 1 to 9999 raises OverflowError. A date moves by \<^verbatim>\<open>timedelta.days\<close> only.
\<close>

definition quoted :: "string \<Rightarrow> string" where
  "quoted s = CHR 0x27 # s @ [CHR 0x27]"

definition unsupported_operand :: "string \<Rightarrow> exn" where
  "unsupported_operand left =
     Exn ''TypeError''
       (''unsupported operand type(s) for +: '' @ quoted left @ '' and '' @ quoted ''NoneType'')"

definition datetime_add :: "datetime \<Rightarrow> timedelta option \<Rightarrow> exn + datetime" where
  "datetime_add dt x =
     (case x of
        None \<Rightarrow> Inl (unsupported_operand ''datetime.datetime'')
      | Some td \<Rightarrow>
          (let t = dt_us dt + total_us td in
           if 0 < t div us_per_day \<and> t div us_per_day \<le> MAXORDINAL then Inr (Datetime t)
           else Inl (Exn ''OverflowError'' ''date value out of range'')))"

definition date_add :: "date \<Rightarrow> timedelta option \<Rightarrow> exn + date" where
  "date_add d x =
     (case x of
        None \<Rightarrow> Inl (unsupported_operand ''datetime.date'')
      | Some td \<Rightarrow>
          (let ord = ordinal d + td_days td in
           if 0 < ord \<and> ord \<le> MAXORDINAL then Inr (Date ord)
           else Inl (Exn ''OverflowError'' ''date value out of range'')))"

text \<open>
  The constructors \<^verbatim>\<open>date(y, m, d)\<close> and \<^verbatim>\<open>datetime(y, m, d, hh, mm, ss)\<close> for
  arguments in range, after \<^verbatim>\<open>_ymd2ord\<close> of the standard library.
\<close>

definition is_leap :: "int \<Rightarrow> bool" where
  "is_leap y = (y mod 4 = 0 \<and> (y mod 100 \<noteq> 0 \<or> y mod 400 = 0))"

definition days_before_year :: "int \<Rightarrow> int" where
  "days_before_year year = (let y = year - 1 in y * 365 + y div 4 - y div 100 + y div 400)"

definition days_before_month :: "int \<Rightarrow> nat \<Rightarrow> int" where
  "days_before_month year month =
     [0, 0, 31, 59, 90, 120, 151, 181, 212, 243, 273, 304, 334] ! month
       + (if month > 2 \<and> is_leap year then 1 else 0)"

definition ymd2ord :: "int \<Rightarrow> nat \<Rightarrow> int \<Rightarrow> int" where
  "ymd2ord year month day = days_before_year year + days_before_month year month + day"

definition mk_date :: "int \<Rightarrow> nat \<Rightarrow> int \<Rightarrow> date" where
  "mk_date y m d = Date (ymd2ord y m d)"

definition mk_datetime :: "int \<Rightarrow> nat \<Rightarrow> int \<Rightarrow> int \<Rightarrow> int \<Rightarrow> int \<Rightarrow> datetime" where
  "mk_datetime y m d hh mm ss =
     Datetime (ymd2ord y m d * us_per_day + ((hh * 60 + mm) * 60 + ss) * 1000000)"

subsection \<open>The rule and what it hands to the query set\<close>

text \<open>The four fields of \<^verbatim>\<open>QuerySetRule\<close> that the methods read.\<close>

record queryset_rule =
  method_type :: string
  field_name :: string
  lookup_type :: string
  field_value :: string

text \<open>\<^verbatim>\<open>models.Count(expression, distinct=...)\<close>.\<close>

datatype aggregate = Count string bool

text \<open>
  The value side of the keyword argument: the raw string, an instant, a date,
  \<^verbatim>\<open>models.F(name)\<close> or a boolean.
\<close>

datatype fvalue = Str string | DateTimeVal datetime | DateVal date | F string | Bool bool

type_synonym kwargs = "(string \<times> fvalue) list"

text \<open>
  The query set operations the rule calls, each of which may raise. The first argument
  is the query set the method is called on.
\<close>

record 'q queryable =
  qs_annotate :: "'q \<Rightarrow> string \<Rightarrow> aggregate \<Rightarrow> exn + 'q"
  qs_filter :: "'q \<Rightarrow> kwargs \<Rightarrow> exn + 'q"
  qs_exclude :: "'q \<Rightarrow> kwargs \<Rightarrow> exn + 'q"

subsection \<open>The methods of QuerySetRule\<close>

definition annotated_field_name :: "queryset_rule \<Rightarrow> string" where
  "annotated_field_name r =
     (if endswith (field_name r) ''__count''
      then (case rpartition (field_name r) ''__'' of
              (agg, _, _) \<Rightarrow> ''num_'' @ replace agg ''__'' ''_'')
      else field_name r)"

definition apply_any_annotation :: "'q queryable \<Rightarrow> queryset_rule \<Rightarrow> 'q \<Rightarrow> exn + 'q" where
  "apply_any_annotation S r qs =
     (if endswith (field_name r) ''__count''
      then (case rpartition (field_name r) ''__'' of
              (agg, _, _) \<Rightarrow> qs_annotate S qs (annotated_field_name r) (Count agg True))
      else Inr qs)"

text \<open>
  \<open>pd\<close> is Django's \<^verbatim>\<open>parse_duration\<close>: it returns a duration, returns \<^verbatim>\<open>None\<close>, or
  raises.
\<close>

definition parse_duration ::
  "(string \<Rightarrow> exn + timedelta option) \<Rightarrow> string \<Rightarrow> exn + timedelta option" where
  "parse_duration pd value0 =
     (let v = lstrip value0 ''+'' in
      case pd v of
        Inl e \<Rightarrow> Inl e
      | Inr (Some d) \<Rightarrow> Inr (Some d)
      | Inr None \<Rightarrow>
          if \<not> contains v '',''
          then (case pd (v @ '', 0'') of
                  Inl e \<Rightarrow> Inl e
                | Inr None \<Rightarrow> Inl (Exn ''ValueError'' (''Could not parse '' @ v))
                | Inr (Some d) \<Rightarrow> Inr (Some d))
          else Inr None)"

definition filter_kwargs ::
  "(string \<Rightarrow> exn + timedelta option) \<Rightarrow> queryset_rule \<Rightarrow> 'q \<Rightarrow> (unit \<Rightarrow> datetime)
     \<Rightarrow> exn + kwargs" where
  "filter_kwargs pd r qs now =
     (let name = join ''__'' [annotated_field_name r, lookup_type r];
          v1 = (if startswith (field_value r) ''now''
                then (case parse_duration pd (replace (field_value r) ''now'' '''') of
                        Inl e \<Rightarrow> Inl e
                      | Inr d \<Rightarrow> map_sum id DateTimeVal (datetime_add (now ()) d))
                else if startswith (field_value r) ''today''
                then (case parse_duration pd (replace (field_value r) ''today'' '''') of
                        Inl e \<Rightarrow> Inl e
                      | Inr d \<Rightarrow> map_sum id DateVal (date_add (date_of (now ())) d))
                else Inr (Str (field_value r)))
      in case v1 of
           Inl e \<Rightarrow> Inl e
         | Inr v \<Rightarrow>
             (let v2 = (if startswith (field_value r) ''F_''
                        then F (replace (field_value r) ''F_'' '''') else v);
                  v3 = (if field_value r = ''True'' then Bool True else v2);
                  v4 = (if field_value r = ''False'' then Bool False else v3)
              in Inr [(name, v4)]))"

definition apply_rule ::
  "'q queryable \<Rightarrow> (string \<Rightarrow> exn + timedelta option) \<Rightarrow> queryset_rule \<Rightarrow> 'q
     \<Rightarrow> (unit \<Rightarrow> datetime) \<Rightarrow> exn + 'q" where
  "apply_rule S pd r qs now =
     (case filter_kwargs pd r qs now of
        Inl e \<Rightarrow> Inl e
      | Inr kw \<Rightarrow>
          (case apply_any_annotation S r qs of
             Inl e \<Rightarrow> Inl e
           | Inr qs' \<Rightarrow>
               if method_type r = ''filter'' then qs_filter S qs' kw
               else if method_type r = ''exclude'' then qs_exclude S qs' kw
               else qs_filter S qs' kw))"

text \<open>
  \<^verbatim>\<open>clean\<close>: \<open>users\<close> is \<^verbatim>\<open>get_user_model().objects.all()\<close>, \<open>now\<close> the default clock
  \<^verbatim>\<open>timezone.now\<close>. Returning normally is \<open>Inr ()\<close>.
\<close>

definition clean ::
  "'q queryable \<Rightarrow> (string \<Rightarrow> exn + timedelta option) \<Rightarrow> queryset_rule \<Rightarrow> 'q
     \<Rightarrow> (unit \<Rightarrow> datetime) \<Rightarrow> exn + unit" where
  "clean S pd r users now =
     (case apply_rule S pd r users now of
        Inl e \<Rightarrow>
          Inl (Exn ''ValidationError''
                 (exn_type e @ '' raised trying to apply rule: '' @ exn_str e))
      | Inr _ \<Rightarrow> Inr ())"

subsection \<open>An in-memory query set\<close>

text \<open>
  Modelled from the spec: the Queryable of section 6 (\<^verbatim>\<open>filter\<close>, \<^verbatim>\<open>exclude\<close>,
  \<^verbatim>\<open>annotate\<close>, evaluated only when materialised), which in the repository is Django's
  \<^verbatim>\<open>QuerySet\<close> and is not under src/. A query set is a table with the typed fields and
  the relations of its model, the annotations requested so far (a dictionary from alias
  to aggregation, as section 4.2 and the glossary describe them) and the conditions
  requested so far. A key is \<open>field__lookup\<close>; the lookups are those of
  \<^verbatim>\<open>LOOKUP_TYPES\<close>. This store evaluates \<open>exact\<close> on every field, the ordering lookups
  on numbers, instants and dates and the text lookups on text; \<open>regex\<close> and \<open>iregex\<close>
  it recognises and rejects.
\<close>

datatype ftype = TInt | TStr | TBool | TDateTime | TDate

datatype cell = IntCell int | StrCell string | BoolCell bool
  | DateTimeCell datetime | DateCell date

record row =
  cells :: "(string \<times> cell) list"
  related :: "(string \<times> nat list) list"

record mem_qs =
  model_fields :: "(string \<times> ftype) list"
  model_relations :: "string list"
  rows :: "row list"
  annotations :: "(string \<times> aggregate) list"
  conditions :: "(bool \<times> kwargs) list"

definition LOOKUP_TYPES :: "string list" where
  "LOOKUP_TYPES = [''exact'', ''iexact'', ''contains'', ''icontains'', ''regex'', ''iregex'',
     ''gt'', ''gte'', ''lt'', ''lte'', ''startswith'', ''istartswith'', ''endswith'',
     ''iendswith'']"

definition digit_val :: "char \<Rightarrow> nat option" where
  "digit_val c =
     (let n = (of_char c :: nat) in if 48 \<le> n \<and> n \<le> 57 then Some (n - 48) else None)"

fun parse_digits :: "string \<Rightarrow> nat \<Rightarrow> nat option" where
  "parse_digits [] acc = Some acc"
| "parse_digits (c # cs) acc =
     (case digit_val c of None \<Rightarrow> None | Some d \<Rightarrow> parse_digits cs (10 * acc + d))"

definition parse_int :: "string \<Rightarrow> int option" where
  "parse_int s =
     (case s of
        [] \<Rightarrow> None
      | c # cs \<Rightarrow>
          if c = CHR ''-''
          then (if cs = [] then None else map_option (\<lambda>n. - int n) (parse_digits cs 0))
          else map_option int (parse_digits s 0))"

definition lower_char :: "char \<Rightarrow> char" where
  "lower_char c =
     (let n = (of_char c :: nat) in if 65 \<le> n \<and> n \<le> 90 then char_of (n + 32) else c)"

definition lower :: "string \<Rightarrow> string" where
  "lower s = map lower_char s"

text \<open>The type a key's field has: a field of the model, or the count behind an alias.\<close>

definition field_type :: "mem_qs \<Rightarrow> string \<Rightarrow> ftype option" where
  "field_type q f =
     (case map_of (model_fields q) f of
        Some t \<Rightarrow> Some t
      | None \<Rightarrow> (case map_of (annotations q) f of Some _ \<Rightarrow> Some TInt | None \<Rightarrow> None))"

definition coerce :: "ftype \<Rightarrow> fvalue \<Rightarrow> cell option" where
  "coerce t v =
     (case (t, v) of
        (TInt, Str s) \<Rightarrow> map_option IntCell (parse_int s)
      | (TInt, Bool b) \<Rightarrow> Some (IntCell (if b then 1 else 0))
      | (TStr, Str s) \<Rightarrow> Some (StrCell s)
      | (TBool, Bool b) \<Rightarrow> Some (BoolCell b)
      | (TDateTime, DateTimeVal d) \<Rightarrow> Some (DateTimeCell d)
      | (TDate, DateVal d) \<Rightarrow> Some (DateCell d)
      | _ \<Rightarrow> None)"

definition lookup_supported :: "ftype \<Rightarrow> string \<Rightarrow> bool" where
  "lookup_supported t l =
     (l = ''exact''
      \<or> (l \<in> set [''gt'', ''gte'', ''lt'', ''lte''] \<and> t \<in> set [TInt, TDateTime, TDate])
      \<or> (l \<in> set [''iexact'', ''contains'', ''icontains'', ''startswith'', ''istartswith'',
                    ''endswith'', ''iendswith''] \<and> t = TStr))"

text \<open>
  The key is split at its last separator. \<open>check_kwarg\<close> is what the store reports when
  a condition is added: \<open>None\<close> when the key and the value are accepted.
\<close>

definition check_kwarg :: "mem_qs \<Rightarrow> string \<times> fvalue \<Rightarrow> exn option" where
  "check_kwarg q kv =
     (case rpartition (fst kv) ''__'' of
        (f, _, l) \<Rightarrow>
          if l \<notin> set LOOKUP_TYPES then Some (Exn ''UnknownLookupError'' l)
          else (case field_type q f of
                  None \<Rightarrow> Some (Exn ''UnknownFieldError'' f)
                | Some t \<Rightarrow>
                    if \<not> lookup_supported t l then Some (Exn ''NotSupportedError'' l)
                    else (case snd kv of
                            F g \<Rightarrow>
                              (if field_type q g = Some t then None
                               else Some (Exn ''UnknownFieldError'' g))
                          | v \<Rightarrow>
                              (if coerce t v = None
                               then Some (Exn ''ValueError'' (fst kv)) else None))))"

fun check_kwargs :: "mem_qs \<Rightarrow> kwargs \<Rightarrow> exn option" where
  "check_kwargs q [] = None"
| "check_kwargs q (kv # kws) =
     (case check_kwarg q kv of Some e \<Rightarrow> Some e | None \<Rightarrow> check_kwargs q kws)"

text \<open>
  Modelled from the spec: \<^verbatim>\<open>annotate(alias, aggregation)\<close> of the Queryable (Django's
  \<^verbatim>\<open>QuerySet.annotate\<close>, not under src/). The aggregation is stored under its alias,
  replacing an earlier entry of the same alias; an alias that is a field of the model
  and a relation the model does not have are rejected.
\<close>

definition mem_annotate :: "mem_qs \<Rightarrow> string \<Rightarrow> aggregate \<Rightarrow> exn + mem_qs" where
  "mem_annotate q alias agg =
     (case agg of
        Count path dist \<Rightarrow>
          if map_of (model_fields q) alias \<noteq> None
          then Inl (Exn ''ValueError'' alias)
          else if path \<notin> set (model_relations q)
          then Inl (Exn ''UnknownFieldError'' path)
          else Inr (q\<lparr>annotations := AList.update alias agg (annotations q)\<rparr>))"

text \<open>
  Modelled from the spec: \<^verbatim>\<open>filter(predicate)\<close> and \<^verbatim>\<open>exclude(predicate)\<close> of the
  Queryable (Django's \<^verbatim>\<open>QuerySet.filter\<close> and \<^verbatim>\<open>QuerySet.exclude\<close>, not under
  src/): the condition is checked and recorded, the rows are left for materialising.
\<close>

definition mem_filter :: "mem_qs \<Rightarrow> kwargs \<Rightarrow> exn + mem_qs" where
  "mem_filter q kw =
     (case check_kwargs q kw of
        Some e \<Rightarrow> Inl e
      | None \<Rightarrow> Inr (q\<lparr>conditions := conditions q @ [(False, kw)]\<rparr>))"

definition mem_exclude :: "mem_qs \<Rightarrow> kwargs \<Rightarrow> exn + mem_qs" where
  "mem_exclude q kw =
     (case check_kwargs q kw of
        Some e \<Rightarrow> Inl e
      | None \<Rightarrow> Inr (q\<lparr>conditions := conditions q @ [(True, kw)]\<rparr>))"

definition mem_store :: "mem_qs queryable" where
  "mem_store = \<lparr>qs_annotate = mem_annotate, qs_filter = mem_filter, qs_exclude = mem_exclude\<rparr>"

text \<open>
  Modelled from the spec: materialising a Queryable (the evaluation of a Django
  \<^verbatim>\<open>QuerySet\<close>, not under src/): the value of a field in a row, one lookup, one
  condition, and the rows that every recorded condition selects. An include condition
  selects the rows on which all its entries hold, an exclude condition the others.
\<close>

definition cell_of :: "mem_qs \<Rightarrow> row \<Rightarrow> string \<Rightarrow> cell option" where
  "cell_of q rw f =
     (case map_of (cells rw) f of
        Some c \<Rightarrow> Some c
      | None \<Rightarrow>
          (case map_of (annotations q) f of
             None \<Rightarrow> None
           | Some (Count path dist) \<Rightarrow>
               (case map_of (related rw) path of
                  None \<Rightarrow> Some (IntCell 0)
                | Some ids \<Rightarrow>
                    Some (IntCell (int (length (if dist then remdups ids else ids)))))))"

definition cell_type :: "cell \<Rightarrow> ftype" where
  "cell_type c =
     (case c of IntCell _ \<Rightarrow> TInt | StrCell _ \<Rightarrow> TStr | BoolCell _ \<Rightarrow> TBool
      | DateTimeCell _ \<Rightarrow> TDateTime | DateCell _ \<Rightarrow> TDate)"

definition cell_key :: "cell \<Rightarrow> int option" where
  "cell_key c =
     (case c of IntCell i \<Rightarrow> Some i | DateTimeCell d \<Rightarrow> Some (dt_us d)
      | DateCell d \<Rightarrow> Some (ordinal d) | _ \<Rightarrow> None)"

definition cell_text :: "cell \<Rightarrow> string option" where
  "cell_text c = (case c of StrCell s \<Rightarrow> Some s | _ \<Rightarrow> None)"

definition lookup_holds :: "string \<Rightarrow> cell \<Rightarrow> cell \<Rightarrow> bool" where
  "lookup_holds l a b =
     (if l = ''exact'' then a = b
      else if l \<in> set [''gt'', ''gte'', ''lt'', ''lte'']
      then (case (cell_key a, cell_key b) of
              (Some x, Some y) \<Rightarrow>
                cell_type a = cell_type b \<and>
                (if l = ''gt'' then x > y else if l = ''gte'' then x \<ge> y
                 else if l = ''lt'' then x < y else x \<le> y)
            | _ \<Rightarrow> False)
      else (case (cell_text a, cell_text b) of
              (Some x, Some y) \<Rightarrow>
                (if l = ''iexact'' then lower x = lower y
                 else if l = ''contains'' then contains x y
                 else if l = ''icontains'' then contains (lower x) (lower y)
                 else if l = ''startswith'' then startswith x y
                 else if l = ''istartswith'' then startswith (lower x) (lower y)
                 else if l = ''endswith'' then endswith x y
                 else if l = ''iendswith'' then endswith (lower x) (lower y)
                 else False)
            | _ \<Rightarrow> False))"

definition kwarg_holds :: "mem_qs \<Rightarrow> row \<Rightarrow> string \<times> fvalue \<Rightarrow> bool" where
  "kwarg_holds q rw kv =
     (case rpartition (fst kv) ''__'' of
        (f, _, l) \<Rightarrow>
          (case cell_of q rw f of
             None \<Rightarrow> False
           | Some a \<Rightarrow>
               (case (case snd kv of F g \<Rightarrow> cell_of q rw g | v \<Rightarrow> coerce (cell_type a) v) of
                  None \<Rightarrow> False
                | Some b \<Rightarrow> lookup_holds l a b)))"

definition row_selected :: "mem_qs \<Rightarrow> row \<Rightarrow> bool" where
  "row_selected q rw =
     list_all (\<lambda>c. list_all (kwarg_holds q rw) (snd c) \<noteq> fst c) (conditions q)"

definition materialize :: "mem_qs \<Rightarrow> row list" where
  "materialize q = filter (row_selected q) (rows q)"

text \<open>A table of people with an integer field \<open>age\<close> and a relation \<open>orders\<close>.\<close>

definition person :: "int \<Rightarrow> nat list \<Rightarrow> row" where
  "person age orders = \<lparr>cells = [(''age'', IntCell age)], related = [(''orders'', orders)]\<rparr>"

definition people :: "row list \<Rightarrow> mem_qs" where
  "people rws =
     \<lparr>model_fields = [(''age'', TInt)], model_relations = [''orders''], rows = rws,
      annotations = [], conditions = []\<rparr>"

section \<open>Properties\<close>

subsection \<open>String helpers\<close>

lemma lstrip_plus: "lstrip (replicate k CHR ''+'' @ s) ''+'' = lstrip s ''+''"
  by (induction k) (simp_all add: lstrip_def)

subsection \<open>Leading plus signs\<close>

text \<open>
  C10. The duration parser strips every leading \<open>+\<close>, not just one: for every body \<open>s\<close>
  and every count \<open>k\<close>, \<open>k\<close> plus signs followed by \<open>s\<close> give the same outcome as \<open>s\<close>
  alone (the same duration, the same \<^verbatim>\<open>None\<close> or the same exception).
\<close>

theorem parse_duration_leading_plus:
  "parse_duration pd (replicate k CHR ''+'' @ s) = parse_duration pd s"
  by (simp add: parse_duration_def lstrip_plus)

subsection \<open>Shape of the keyword argument\<close>

lemma filter_kwargs_key:
  "filter_kwargs pd r qs now = Inr kw \<Longrightarrow>
   \<exists>v. kw = [(annotated_field_name r @ ''__'' @ lookup_type r, v)]"
  unfolding filter_kwargs_def Let_def
  by (auto split: sum.splits if_splits)

subsection \<open>Relative instants and dates\<close>

lemma replace_now: "replace ''now'' ''now'' [] = []"
  by (simp add: startswith_def)

lemma replace_today: "replace ''today+3 days'' ''today'' [] = ''+3 days''"
  by (simp add: startswith_def)

lemma parse_duration_empty:
  assumes "pd [] = Inr (Some d) \<or> (pd [] = Inr None \<and> pd '', 0'' = Inr (Some d))"
  shows "parse_duration pd [] = Inr (Some d)"
  using assms by (auto simp: parse_duration_def lstrip_def)

lemma datetime_add_zero:
  "valid_datetime dt \<Longrightarrow> datetime_add dt (Some (Timedelta 0)) = Inr dt"
  by (cases dt) (simp add: datetime_add_def valid_datetime_def)

lemma parse_duration_3days:
  assumes "pd ''3 days'' = Inr (Some d)
           \<or> (pd ''3 days'' = Inr None \<and> pd ''3 days, 0'' = Inr (Some d))"
  shows "parse_duration pd ''+3 days'' = Inr (Some d)"
proof -
  have l: "lstrip ''+3 days'' ''+'' = ''3 days''" by (simp add: lstrip_def)
  have c: "\<not> contains ''3 days'' '',''" by (simp add: startswith_def)
  show ?thesis unfolding parse_duration_def l Let_def using assms c by auto
qed

lemma date_2024:
  "date_add (date_of (mk_datetime 2024 1 1 0 0 0)) (Some (timedelta_days 3))
     = Inr (mk_date 2024 1 4)"
  by (simp add: date_add_def date_of_def mk_datetime_def mk_date_def timedelta_days_def
      td_days_def ymd2ord_def days_before_year_def days_before_month_def us_per_day_def
      MAXORDINAL_def)

lemma valid_2024: "valid_datetime (mk_datetime 2024 1 1 0 0 0)"
  by (simp add: valid_datetime_def mk_datetime_def ymd2ord_def days_before_year_def
      days_before_month_def us_per_day_def MAXORDINAL_def)

text \<open>
  C1. For the raw value exactly \<^verbatim>\<open>now\<close> the remainder after the prefix is empty; when
  Django's parser reads the empty remainder as the zero duration (directly, or on the
  retry with \<^verbatim>\<open>, 0\<close> appended), the value of the compiled keyword argument is the
  clock's instant \<open>now ()\<close> unchanged and nothing is raised.
\<close>

theorem now_alone_is_clock_instant:
  assumes pd: "pd [] = Inr (Some (Timedelta 0))
               \<or> (pd [] = Inr None \<and> pd '', 0'' = Inr (Some (Timedelta 0)))"
    and valid: "valid_datetime (now ())"
    and raw: "field_value r = ''now''"
  shows "filter_kwargs pd r qs now =
           Inr [(annotated_field_name r @ ''__'' @ lookup_type r, DateTimeVal (now ()))]"
proof -
  have p: "parse_duration pd (replace ''now'' ''now'' []) = Inr (Some (Timedelta 0))"
    unfolding replace_now using pd by (rule parse_duration_empty)
  have a: "datetime_add (now ()) (Some (Timedelta 0)) = Inr (now ())"
    using valid by (rule datetime_add_zero)
  have s: "startswith ''now'' ''now''" "\<not> startswith ''now'' ''F_''"
    by (simp_all add: startswith_def)
  show ?thesis
    unfolding filter_kwargs_def raw Let_def p
    by (simp add: a s del: replace.simps)
qed

theorem now_alone_is_clock_instant_witness:
  "filter_kwargs (\<lambda>s. if s = [] then Inr (Some (Timedelta 0)) else Inr None)
     \<lparr>method_type = ''filter'', field_name = ''date_joined'', lookup_type = ''lte'',
      field_value = ''now''\<rparr> () (\<lambda>_. mk_datetime 2024 1 1 0 0 0)
   = Inr [(''date_joined__lte'', DateTimeVal (mk_datetime 2024 1 1 0 0 0))]"
  using now_alone_is_clock_instant
      [where pd = "\<lambda>s. if s = [] then Inr (Some (Timedelta 0)) else Inr None"
         and now = "\<lambda>_. mk_datetime 2024 1 1 0 0 0"
         and r = "\<lparr>method_type = ''filter'', field_name = ''date_joined'',
                    lookup_type = ''lte'', field_value = ''now''\<rparr>"
         and qs = "()"]
    valid_2024
  by (simp add: annotated_field_name_def endswith_def)

text \<open>
  C8. With a clock fixed at 2024-01-01T00:00:00 the raw value \<^verbatim>\<open>today+3 days\<close> gives the
  calendar date 2024-01-04: the prefix \<^verbatim>\<open>today\<close> is removed, the leading plus is
  stripped, the day count \<^verbatim>\<open>3 days\<close> is accepted (by the retry with \<^verbatim>\<open>, 0\<close> appended
  when Django's parser rejects the bare day count, or at once when it accepts it), and
  the three days are added to \<open>date_of (now ())\<close>.
\<close>

theorem today_plus_3_days:
  assumes pd: "pd ''3 days'' = Inr (Some (timedelta_days 3))
               \<or> (pd ''3 days'' = Inr None \<and> pd ''3 days, 0'' = Inr (Some (timedelta_days 3)))"
    and clock: "now () = mk_datetime 2024 1 1 0 0 0"
    and raw: "field_value r = ''today+3 days''"
  shows "parse_duration pd ''+3 days'' = Inr (Some (timedelta_days 3)) \<and>
         filter_kwargs pd r qs now =
           Inr [(annotated_field_name r @ ''__'' @ lookup_type r, DateVal (mk_date 2024 1 4))]"
proof
  show d: "parse_duration pd ''+3 days'' = Inr (Some (timedelta_days 3))"
    using pd by (rule parse_duration_3days)
  have p: "parse_duration pd (replace ''today+3 days'' ''today'' [])
             = Inr (Some (timedelta_days 3))"
    unfolding replace_today by (rule d)
  have s: "\<not> startswith ''today+3 days'' ''now''" "startswith ''today+3 days'' ''today''"
      "\<not> startswith ''today+3 days'' ''F_''"
    by (simp_all add: startswith_def)
  show "filter_kwargs pd r qs now =
           Inr [(annotated_field_name r @ ''__'' @ lookup_type r, DateVal (mk_date 2024 1 4))]"
    unfolding filter_kwargs_def raw Let_def p clock
    by (simp add: s date_2024 [unfolded One_nat_def] del: replace.simps)
qed

theorem today_plus_3_days_witness:
  "filter_kwargs (\<lambda>s. if s = ''3 days, 0'' then Inr (Some (timedelta_days 3)) else Inr None)
     \<lparr>method_type = ''filter'', field_name = ''expires'', lookup_type = ''lte'',
      field_value = ''today+3 days''\<rparr> () (\<lambda>_. mk_datetime 2024 1 1 0 0 0)
   = Inr [(''expires__lte'', DateVal (mk_date 2024 1 4))]"
  using today_plus_3_days
      [where pd = "\<lambda>s. if s = ''3 days, 0'' then Inr (Some (timedelta_days 3)) else Inr None"
         and now = "\<lambda>_. mk_datetime 2024 1 1 0 0 0"
         and r = "\<lparr>method_type = ''filter'', field_name = ''expires'',
                    lookup_type = ''lte'', field_value = ''today+3 days''\<rparr>"
         and qs = "()"]
  by (simp add: annotated_field_name_def endswith_def)

subsection \<open>Duration strings that Django rejects\<close>

text \<open>
  C2. A duration string on which every parse attempt fails should make
  \<^verbatim>\<open>parse_duration\<close> raise. The raise sits under the no-comma test, so for a string
  with a comma, such as \<^verbatim>\<open>1 day, x\<close>, the method returns whatever Django's parser
  returned, \<^verbatim>\<open>None\<close> included; \<^verbatim>\<open>filter_kwargs\<close> then fails on \<^verbatim>\<open>now() + None\<close> with a
  TypeError rather than with the parse error.
\<close>

theorem parse_duration_comma_returns_none:
  "parse_duration pd ''1 day, x'' = pd ''1 day, x''
   \<and> parse_duration (\<lambda>s. Inr None) ''1 day, x'' = Inr None
   \<and> filter_kwargs (\<lambda>s. Inr None)
        \<lparr>method_type = ''filter'', field_name = ''date_joined'', lookup_type = ''lte'',
         field_value = ''now1 day, x''\<rparr> qs now
      = Inl (unsupported_operand ''datetime.datetime'')"
proof -
  have l: "lstrip ''1 day, x'' ''+'' = ''1 day, x''" by (simp add: lstrip_def)
  have c: "contains ''1 day, x'' '',''" by (simp add: startswith_def)
  have p: "parse_duration p ''1 day, x'' = p ''1 day, x''" for p
    unfolding parse_duration_def Let_def l using c
    by (simp split: sum.splits option.splits)
  have r: "replace ''now1 day, x'' ''now'' [] = ''1 day, x''"
    by (simp add: startswith_def)
  have s: "startswith ''now1 day, x'' ''now''" by (simp add: startswith_def)
  have "filter_kwargs (\<lambda>s. Inr None)
        \<lparr>method_type = ''filter'', field_name = ''date_joined'', lookup_type = ''lte'',
         field_value = ''now1 day, x''\<rparr> qs now
      = Inl (unsupported_operand ''datetime.datetime'')"
    unfolding filter_kwargs_def Let_def
    by (simp add: r s p datetime_add_def del: replace.simps)
  with p show ?thesis by simp
qed

subsection \<open>Field references\<close>

text \<open>
  C6. A raw value that begins with \<^verbatim>\<open>F_\<close> should compile to a reference to the field
  named by the rest of the value. The prefix is removed with \<^verbatim>\<open>replace\<close>, which removes
  every occurrence: for \<^verbatim>\<open>F_REF_id\<close> the reference is to \<^verbatim>\<open>REid\<close>, not to \<^verbatim>\<open>REF_id\<close>.
\<close>

theorem f_prefix_removed_everywhere:
  "filter_kwargs pd
     \<lparr>method_type = m, field_name = ''owner_id'', lookup_type = ''exact'',
      field_value = ''F_REF_id''\<rparr> qs now
   = Inr [(''owner_id__exact'', F ''REid'')]"
  by (simp add: filter_kwargs_def annotated_field_name_def startswith_def endswith_def)

subsection \<open>Count annotations\<close>

lemma rfind_from_last:
  "i \<le> n \<Longrightarrow> startswith (drop i s) sep \<Longrightarrow>
   (\<And>j. i < j \<Longrightarrow> j \<le> n \<Longrightarrow> \<not> startswith (drop j s) sep) \<Longrightarrow>
   rfind_from s sep n = Some i"
proof (induction n)
  case 0
  then show ?case by simp
next
  case (Suc n)
  show ?case
  proof (cases "i = Suc n")
    case True
    with Suc.prems(2) show ?thesis by simp
  next
    case False
    with Suc.prems(1) have le: "i \<le> n" by simp
    from False Suc.prems(1) have "i < Suc n" by simp
    then have miss: "\<not> startswith (drop (Suc n) s) sep"
      using Suc.prems(3) by blast
    have "rfind_from s sep n = Some i"
      using le Suc.prems(2) Suc.prems(3) by (intro Suc.IH) auto
    with miss show ?thesis by simp
  qed
qed

lemma count_tail_miss:
  assumes "0 < k" "k \<le> 5"
  shows "\<not> startswith (drop k ''__count'') ''__''"
proof -
  from assms consider "k = 1" | "k = 2" | "k = 3" | "k = 4" | "k = 5" by linarith
  then show ?thesis
    by cases (simp_all add: startswith_def eval_nat_numeral)
qed

lemma rfind_count: "rfind (R @ ''__count'') ''__'' = Some (length R)"
proof -
  have "rfind_from (R @ ''__count'') ''__'' (length R + 5) = Some (length R)"
  proof (rule rfind_from_last)
    show "length R \<le> length R + 5" by simp
    show "startswith (drop (length R) (R @ ''__count'')) ''__''"
      by (simp add: startswith_def)
  next
    fix j assume "length R < j" "j \<le> length R + 5"
    then have "j = length R + (j - length R)" "0 < j - length R" "j - length R \<le> 5"
      by simp_all
    then show "\<not> startswith (drop j (R @ ''__count'')) ''__''"
      using count_tail_miss [of "j - length R"] by simp
  qed
  moreover have "length (R @ ''__count'') - length ''__'' = length R + 5" by simp
  moreover have "length ''__'' \<le> length (R @ ''__count'')" by simp
  ultimately show ?thesis unfolding rfind_def by (simp only: if_True)
qed

lemma rpartition_count: "rpartition (R @ ''__count'') ''__'' = (R, ''__'', ''count'')"
  by (simp add: rpartition_def rfind_count)

lemma endswith_append: "endswith (R @ p) p"
  by (simp add: endswith_def)

lemma annotated_count:
  "field_name r = R @ ''__count'' \<Longrightarrow>
   annotated_field_name r = ''num_'' @ replace R ''__'' ''_''"
  by (simp add: annotated_field_name_def endswith_append rpartition_count del: replace.simps)

lemma annotation_count:
  "field_name r = R @ ''__count'' \<Longrightarrow>
   apply_any_annotation S r qs = qs_annotate S qs (annotated_field_name r) (Count R True)"
  by (simp add: apply_any_annotation_def endswith_append rpartition_count del: replace.simps)

lemma mem_annotate_again:
  "mem_annotate q a g = Inr q' \<Longrightarrow>
   annotations q' = AList.update a g (annotations q) \<and> mem_annotate q' a g = Inr q'"
  by (cases g) (auto simp: mem_annotate_def split: if_splits)

lemma orders_alias:
  "annotated_field_name
     \<lparr>method_type = m, field_name = ''orders__count'', lookup_type = l, field_value = v\<rparr>
   = ''num_orders''"
  using annotated_count [where R = "''orders''"
      and r = "\<lparr>method_type = m, field_name = ''orders__count'', lookup_type = l,
                 field_value = v\<rparr>"]
  by (simp add: startswith_def)

text \<open>
  C9. For a field name \<open>R @ ''__count''\<close> the alias, which is also the field name the
  keyword argument is built from, is \<^verbatim>\<open>num_\<close> followed by \<open>R\<close> with every \<^verbatim>\<open>__\<close> replaced
  by one \<^verbatim>\<open>_\<close>, and the annotation is requested under that alias. For a field name that
  does not end in \<^verbatim>\<open>__count\<close> the field name is used as it is and the query set is
  returned without an annotation.
\<close>

theorem count_alias:
  "(field_name r = R @ ''__count'' \<longrightarrow>
      annotated_field_name r = ''num_'' @ replace R ''__'' ''_'' \<and>
      apply_any_annotation S r qs
        = qs_annotate S qs (''num_'' @ replace R ''__'' ''_'') (Count R True) \<and>
      (\<forall>kw. filter_kwargs pd r qs now = Inr kw \<longrightarrow>
         map fst kw = [''num_'' @ replace R ''__'' ''_'' @ ''__'' @ lookup_type r]))
   \<and> (\<not> endswith (field_name r) ''__count'' \<longrightarrow>
      annotated_field_name r = field_name r \<and>
      apply_any_annotation S r qs = Inr qs \<and>
      (\<forall>kw. filter_kwargs pd r qs now = Inr kw \<longrightarrow>
         map fst kw = [field_name r @ ''__'' @ lookup_type r]))"
proof (intro conjI impI allI)
  assume f: "field_name r = R @ ''__count''"
  show a: "annotated_field_name r = ''num_'' @ replace R ''__'' ''_''"
    using f by (rule annotated_count)
  show "apply_any_annotation S r qs
        = qs_annotate S qs (''num_'' @ replace R ''__'' ''_'') (Count R True)"
    using annotation_count [OF f, of S qs] unfolding a .
  fix kw assume "filter_kwargs pd r qs now = Inr kw"
  from filter_kwargs_key [OF this] a
  show "map fst kw = [''num_'' @ replace R ''__'' ''_'' @ ''__'' @ lookup_type r]"
    by auto
next
  assume n: "\<not> endswith (field_name r) ''__count''"
  show a: "annotated_field_name r = field_name r"
    using n by (simp add: annotated_field_name_def)
  show "apply_any_annotation S r qs = Inr qs"
    using n by (simp add: apply_any_annotation_def)
  fix kw assume "filter_kwargs pd r qs now = Inr kw"
  from filter_kwargs_key [OF this] a
  show "map fst kw = [field_name r @ ''__'' @ lookup_type r]"
    by auto
qed

theorem count_alias_witness:
  "annotated_field_name
     \<lparr>method_type = ''filter'', field_name = ''orders__items__count'', lookup_type = ''gt'',
      field_value = ''0''\<rparr> = ''num_orders_items''
   \<and> annotated_field_name
     \<lparr>method_type = ''filter'', field_name = ''age'', lookup_type = ''gte'',
      field_value = ''18''\<rparr> = ''age''"
  using count_alias
      [where R = "''orders__items''"
         and r = "\<lparr>method_type = ''filter'', field_name = ''orders__items__count'',
                    lookup_type = ''gt'', field_value = ''0''\<rparr>"
         and S = mem_store and qs = "people []" and pd = "\<lambda>s. Inr None"
         and now = "\<lambda>_. Datetime 0"]
    count_alias
      [where R = "''orders''"
         and r = "\<lparr>method_type = ''filter'', field_name = ''age'',
                    lookup_type = ''gte'', field_value = ''18''\<rparr>"
         and S = mem_store and qs = "people []" and pd = "\<lambda>s. Inr None"
         and now = "\<lambda>_. Datetime 0"]
  by (simp add: startswith_def endswith_def)


subsection \<open>Evaluating rules on the table of people\<close>

lemma method_update_sel:
  "field_value (r\<lparr>method_type := m\<rparr>) = field_value r"
  "field_name (r\<lparr>method_type := m\<rparr>) = field_name r"
  "lookup_type (r\<lparr>method_type := m\<rparr>) = lookup_type r"
  by simp_all

lemma age_kwargs:
  "filter_kwargs pd
     \<lparr>method_type = m, field_name = ''age'', lookup_type = ''gte'', field_value = ''18''\<rparr>
     qs now
   = Inr [(''age__gte'', Str ''18'')]"
  by (simp add: filter_kwargs_def annotated_field_name_def startswith_def endswith_def)

lemma age_no_annotation:
  "apply_any_annotation S
     \<lparr>method_type = m, field_name = ''age'', lookup_type = ''gte'', field_value = ''18''\<rparr> qs
   = Inr qs"
  by (simp add: apply_any_annotation_def endswith_def)

lemma age_filter:
  "map_sum id materialize
     (mem_filter (people [person 15 [], person 18 [], person 21 []])
        [(''age__gte'', Str ''18'')])
   = Inr [person 18 [], person 21 []]"
  by code_simp

lemma age_exclude:
  "map_sum id materialize
     (mem_exclude (people [person 15 [], person 18 [], person 21 []])
        [(''age__gte'', Str ''18'')])
   = Inr [person 15 []]"
  by code_simp

lemma age_include_rule:
  "map_sum id materialize
     (apply_rule mem_store pd
        \<lparr>method_type = ''filter'', field_name = ''age'', lookup_type = ''gte'',
         field_value = ''18''\<rparr>
        (people [person 15 [], person 18 [], person 21 []]) now)
   = Inr [person 18 [], person 21 []]"
  unfolding apply_rule_def age_kwargs age_no_annotation
  by (simp add: mem_store_def age_filter)

lemma age_exclude_rule:
  "map_sum id materialize
     (apply_rule mem_store pd
        \<lparr>method_type = ''exclude'', field_name = ''age'', lookup_type = ''gte'',
         field_value = ''18''\<rparr>
        (people [person 15 [], person 18 [], person 21 []]) now)
   = Inr [person 15 []]"
  unfolding apply_rule_def age_kwargs age_no_annotation
  by (simp add: mem_store_def age_exclude)

lemma bad_duration:
  "apply_rule mem_store (\<lambda>s. Inr None)
     \<lparr>method_type = ''filter'', field_name = ''age'', lookup_type = ''gte'',
      field_value = ''nowxyz''\<rparr>
     (people []) (\<lambda>_. Datetime 0) = Inl (Exn ''ValueError'' ''Could not parse xyz'')"
  by code_simp

lemma orders_annotation:
  "map_sum id annotations
     (apply_any_annotation mem_store
        \<lparr>method_type = ''filter'', field_name = ''orders__count'', lookup_type = ''gt'',
         field_value = ''0''\<rparr> (people rws))
   = Inr [(''num_orders'', Count ''orders'' True)]"
proof -
  have "apply_any_annotation mem_store
          \<lparr>method_type = ''filter'', field_name = ''orders__count'', lookup_type = ''gt'',
           field_value = ''0''\<rparr> (people rws)
        = mem_annotate (people rws) ''num_orders'' (Count ''orders'' True)"
    using annotation_count
        [where R = "''orders''" and S = mem_store and qs = "people rws"
           and r = "\<lparr>method_type = ''filter'', field_name = ''orders__count'',
                      lookup_type = ''gt'', field_value = ''0''\<rparr>"]
    by (simp add: orders_alias mem_store_def)
  then show ?thesis
    by (simp add: mem_annotate_def people_def)
qed

text \<open>
  C3. For a field name that ends with \<^verbatim>\<open>__count\<close>, compiling the rule makes exactly one
  annotation request, a distinct count over the relation path before the marker, under
  the alias \<open>annotated_field_name r\<close>, which depends on the field name only and is the
  field name of the keyword argument. On the in-memory query set, applying the same
  annotation to the annotated query set again raises nothing and leaves it as it is.
\<close>

theorem count_annotation_once:
  assumes f: "field_name r = R @ ''__count''"
  shows "apply_any_annotation S r qs = qs_annotate S qs (annotated_field_name r) (Count R True)
    \<and> apply_rule S pd r qs now =
        (case filter_kwargs pd r qs now of
           Inl e \<Rightarrow> Inl e
         | Inr kw \<Rightarrow>
             (case qs_annotate S qs (annotated_field_name r) (Count R True) of
                Inl e \<Rightarrow> Inl e
              | Inr q' \<Rightarrow>
                  if method_type r = ''exclude'' then qs_exclude S q' kw else qs_filter S q' kw))
    \<and> (\<forall>kw. filter_kwargs pd r qs now = Inr kw \<longrightarrow>
          (\<exists>v. kw = [(annotated_field_name r @ ''__'' @ lookup_type r, v)]))
    \<and> (\<forall>q q'. apply_any_annotation mem_store r q = Inr q' \<longrightarrow>
          annotations q' = AList.update (annotated_field_name r) (Count R True) (annotations q)
          \<and> apply_any_annotation mem_store r q' = Inr q')"
proof (intro conjI allI impI)
  show a: "apply_any_annotation S r qs
             = qs_annotate S qs (annotated_field_name r) (Count R True)"
    using f by (rule annotation_count)
  show "apply_rule S pd r qs now =
        (case filter_kwargs pd r qs now of
           Inl e \<Rightarrow> Inl e
         | Inr kw \<Rightarrow>
             (case qs_annotate S qs (annotated_field_name r) (Count R True) of
                Inl e \<Rightarrow> Inl e
              | Inr q' \<Rightarrow>
                  if method_type r = ''exclude'' then qs_exclude S q' kw else qs_filter S q' kw))"
    unfolding apply_rule_def a by (simp split: sum.splits)
next
  fix kw assume "filter_kwargs pd r qs now = Inr kw"
  then show "\<exists>v. kw = [(annotated_field_name r @ ''__'' @ lookup_type r, v)]"
    by (rule filter_kwargs_key)
next
  fix q q' assume "apply_any_annotation mem_store r q = Inr q'"
  then have m: "mem_annotate q (annotated_field_name r) (Count R True) = Inr q'"
    unfolding annotation_count [OF f] by (simp add: mem_store_def)
  from mem_annotate_again [OF m]
  show "annotations q' = AList.update (annotated_field_name r) (Count R True) (annotations q)"
    and "apply_any_annotation mem_store r q' = Inr q'"
    unfolding annotation_count [OF f] by (simp_all add: mem_store_def)
qed

theorem count_annotation_once_witness:
  "map_sum id annotations
     (apply_any_annotation mem_store
        \<lparr>method_type = ''filter'', field_name = ''orders__count'', lookup_type = ''gt'',
         field_value = ''0''\<rparr> (people []))
   = Inr [(''num_orders'', Count ''orders'' True)]"
  using count_annotation_once [where R = "''orders''" and S = mem_store and pd = "\<lambda>s. Inr None"
      and r = "\<lparr>method_type = ''filter'', field_name = ''orders__count'',
                 lookup_type = ''gt'', field_value = ''0''\<rparr>"
      and qs = "people []" and now = "\<lambda>_. Datetime 0"]
    orders_annotation [where rws = "[]"]
  by simp


subsection \<open>Include, exclude and the fallback\<close>

text \<open>
  C4. A rule whose method is neither \<^verbatim>\<open>filter\<close> nor \<^verbatim>\<open>exclude\<close> is applied as an
  include rule: \<^verbatim>\<open>apply\<close> gives exactly what it gives for the same rule with method
  \<^verbatim>\<open>filter\<close>, the query set's \<^verbatim>\<open>filter\<close> on the compiled keyword argument, and the
  method value itself raises nothing.
\<close>

theorem unknown_method_is_include:
  assumes "method_type r \<noteq> ''filter''" "method_type r \<noteq> ''exclude''"
  shows "apply_rule S pd r qs now = apply_rule S pd (r\<lparr>method_type := ''filter''\<rparr>) qs now
     \<and> (\<forall>kw q'. filter_kwargs pd r qs now = Inr kw \<longrightarrow>
           apply_any_annotation S r qs = Inr q' \<longrightarrow>
           apply_rule S pd r qs now = qs_filter S q' kw)"
proof -
  have k: "filter_kwargs pd (r\<lparr>method_type := ''filter''\<rparr>) qs now
             = filter_kwargs pd r qs now"
    unfolding filter_kwargs_def annotated_field_name_def method_update_sel by (rule refl)
  have a: "apply_any_annotation S (r\<lparr>method_type := ''filter''\<rparr>) qs
             = apply_any_annotation S r qs"
    unfolding apply_any_annotation_def annotated_field_name_def method_update_sel
    by (rule refl)
  show ?thesis
    unfolding apply_rule_def k a using assms
    by (simp split: sum.splits del: replace.simps)
qed

theorem unknown_method_is_include_witness:
  "map_sum id materialize
     (apply_rule mem_store (\<lambda>s. Inr None)
        \<lparr>method_type = ''keep'', field_name = ''age'', lookup_type = ''gte'',
         field_value = ''18''\<rparr>
        (people [person 15 [], person 18 [], person 21 []]) (\<lambda>_. Datetime 0))
   = Inr [person 18 [], person 21 []]"
  using unknown_method_is_include [where S = mem_store and pd = "\<lambda>s. Inr None"
      and r = "\<lparr>method_type = ''keep'', field_name = ''age'', lookup_type = ''gte'',
                 field_value = ''18''\<rparr>"
      and qs = "people [person 15 [], person 18 [], person 21 []]"
      and now = "\<lambda>_. Datetime 0"]
    age_include_rule [where pd = "\<lambda>s. Inr None" and now = "\<lambda>_. Datetime 0"]
  by simp



text \<open>
  C7. The rule \<open>age\<close>, \<open>gte\<close>, \<open>18\<close> with method \<^verbatim>\<open>filter\<close>, applied to records of ages
  15, 18 and 21, returns exactly the records of ages 18 and 21; with method \<^verbatim>\<open>exclude\<close>
  it returns exactly the record of age 15.
\<close>

theorem age_gte_18_include_exclude:
  "map_sum id materialize
     (apply_rule mem_store pd
        \<lparr>method_type = ''filter'', field_name = ''age'', lookup_type = ''gte'',
         field_value = ''18''\<rparr>
        (people [person 15 [], person 18 [], person 21 []]) now)
     = Inr [person 18 [], person 21 []]
   \<and> map_sum id materialize
     (apply_rule mem_store pd
        \<lparr>method_type = ''exclude'', field_name = ''age'', lookup_type = ''gte'',
         field_value = ''18''\<rparr>
        (people [person 15 [], person 18 [], person 21 []]) now)
     = Inr [person 15 []]"
  using age_include_rule age_exclude_rule by simp

subsection \<open>Validation\<close>

text \<open>
  C5. Whenever applying the rule to the sample query set raises an exception, \<^verbatim>\<open>clean\<close>
  raises a ValidationError whose message carries the type name and the text of that
  exception; \<^verbatim>\<open>clean\<close> raises nothing but ValidationError, and returns normally when
  the application does.
\<close>

theorem clean_wraps_every_exception:
  "(apply_rule S pd r users now = Inl e \<longrightarrow>
      clean S pd r users now =
        Inl (Exn ''ValidationError''
               (exn_type e @ '' raised trying to apply rule: '' @ exn_str e)))
   \<and> (\<forall>e'. clean S pd r users now = Inl e' \<longrightarrow> exn_type e' = ''ValidationError'')
   \<and> (\<forall>q. apply_rule S pd r users now = Inr q \<longrightarrow> clean S pd r users now = Inr ())"
  unfolding clean_def by (cases "apply_rule S pd r users now") auto

theorem clean_wraps_every_exception_witness:
  "clean mem_store (\<lambda>s. Inr None)
     \<lparr>method_type = ''filter'', field_name = ''age'', lookup_type = ''gte'',
      field_value = ''nowxyz''\<rparr>
     (people []) (\<lambda>_. Datetime 0)
   = Inl (Exn ''ValidationError'' ''ValueError raised trying to apply rule: Could not parse xyz'')"
  using clean_wraps_every_exception [where S = mem_store and pd = "\<lambda>s. Inr None"
      and r = "\<lparr>method_type = ''filter'', field_name = ''age'', lookup_type = ''gte'',
                 field_value = ''nowxyz''\<rparr>"
      and users = "people []" and now = "\<lambda>_. Datetime 0"
      and e = "Exn ''ValueError'' ''Could not parse xyz''"]
    bad_duration
  by simp



end
